theory Spec2Isabelle
  imports Main "HOL-Library.Word"
begin

section \<open>JavaScript values used by the component\<close>

text \<open>
  A JavaScript string is a sequence of UTF-16 code units. String literals of the source
  are written with \<open>str\<close>, which maps every character of an Isabelle literal to its
  code unit.
\<close>

type_synonym js_string = "16 word list"

definition str :: "string \<Rightarrow> js_string" where
  "str cs = map of_char cs"

text \<open>
  The values that can arrive as \<open>response.data\<close> and that \<open>setAudioUrl\<close> can store:
  a parsed JSON body, a raw string, or nothing.
\<close>

datatype js_value =
    JUndefined
  | JNull
  | JBool bool
  | JNum int
  | JStr js_string
  | JArr "js_value list"
  | JObj "(js_string \<times> js_value) list"

text \<open>What a \<open>try\<close> block can catch here.\<close>

datatype thrown = AxiosError | TypeError

text \<open>
  \<open>v.audioUrl\<close>: reading a property of \<open>null\<close> or \<open>undefined\<close> throws a TypeError;
  an object yields the property or \<open>undefined\<close>; every other value has no such property.
\<close>

fun prop_audioUrl :: "js_value \<Rightarrow> thrown + js_value" where
  "prop_audioUrl JUndefined = Inl TypeError"
| "prop_audioUrl JNull = Inl TypeError"
| "prop_audioUrl (JObj kvs) =
     Inr (case map_of kvs (str ''audioUrl'') of None \<Rightarrow> JUndefined | Some v \<Rightarrow> v)"
| "prop_audioUrl v = Inr JUndefined"

text \<open>Truthiness, as used by \<open>audioUrl && (...)\<close>.\<close>

fun truthy :: "js_value \<Rightarrow> bool" where
  "truthy JUndefined = False"
| "truthy JNull = False"
| "truthy (JBool b) = b"
| "truthy (JNum n) = (n \<noteq> 0)"
| "truthy (JStr s) = (s \<noteq> [])"
| "truthy (JArr xs) = True"
| "truthy (JObj kvs) = True"

text \<open>
  \<open>String.prototype.trim\<close> removes white space and line terminators from both ends:
  TAB, LF, VT, FF, CR, SP, NBSP, the Unicode space separators, LS, PS and the BOM.
\<close>

definition is_js_whitespace :: "16 word \<Rightarrow> bool" where
  "is_js_whitespace c =
     (c = 0x09 \<or> c = 0x0A \<or> c = 0x0B \<or> c = 0x0C \<or> c = 0x0D \<or> c = 0x20 \<or> c = 0xA0
      \<or> c = 0x1680 \<or> (0x2000 \<le> c \<and> c \<le> 0x200A) \<or> c = 0x2028 \<or> c = 0x2029
      \<or> c = 0x202F \<or> c = 0x205F \<or> c = 0x3000 \<or> c = 0xFEFF)"

definition trim :: "js_string \<Rightarrow> js_string" where
  "trim s = rev (dropWhile is_js_whitespace (rev (dropWhile is_js_whitespace s)))"

section \<open>Component state and effects\<close>

datatype js_file = File (fname: js_string)

text \<open>The four \<open>useState\<close> cells of \<open>App\<close>; \<open>None\<close> is \<open>null\<close> or \<open>undefined\<close>.\<close>

record app_state =
  textInput :: js_string
  fileInput :: "js_file option"
  audioUrl :: js_value
  isLoading :: bool

definition initial_state :: app_state where
  "initial_state = \<lparr>textInput = [], fileInput = None, audioUrl = JStr [], isLoading = False\<rparr>"

text \<open>What the handlers do to the outside world, in order.\<close>

datatype effect =
    PreventDefault
  | ReadAsText js_file
  | HttpPost js_string js_value
  | Alert js_string
  | ConsoleError thrown

definition API_ENDPOINT :: js_string where
  "API_ENDPOINT = str ''http://127.0.0.1:5000/process-text''"

definition MSG_NO_INPUT :: js_string where
  "MSG_NO_INPUT = str ''Please enter text or select a text file.''"

definition MSG_NOT_200 :: js_string where
  "MSG_NOT_200 = str ''Error processing your request.''"

definition MSG_CAUGHT :: js_string where
  "MSG_CAUGHT = str ''An error occurred while processing your request.''"

text \<open>
  The environment decides how the two suspended operations end: the \<open>FileReader\<close>
  either fires \<open>onload\<close> with the text or fails (no other handler is installed), and the
  promise of \<open>axios.post\<close> either resolves with a response or rejects. The
  handlers below are modelled for every settled promise.
\<close>

datatype read_outcome = Loaded js_string | ReadFailed

record response =
  status :: int
  data :: js_value

datatype post_outcome = Resolved response | Rejected thrown

text \<open>
  What happens on the wire, and how the library settles the promise from it. The call
  \<open>axios.post(API_ENDPOINT, {text: content})\<close> passes no config, so the library's
  default \<open>validateStatus\<close> applies: a response resolves the promise when its status
  is in the 2xx range and rejects it otherwise, as a failure of the network does.
\<close>

datatype wire_outcome = NetworkFailure | HttpResponse response

definition validateStatus :: "int \<Rightarrow> bool" where
  "validateStatus st = (200 \<le> st \<and> st < 300)"

definition axios_post :: "wire_outcome \<Rightarrow> post_outcome" where
  "axios_post w =
     (case w of
        NetworkFailure \<Rightarrow> Rejected AxiosError
      | HttpResponse r \<Rightarrow> if validateStatus (status r) then Resolved r else Rejected AxiosError)"

section \<open>The handlers\<close>

definition handleTextChange :: "js_string \<Rightarrow> app_state \<Rightarrow> app_state" where
  "handleTextChange v s = s\<lparr>textInput := v\<rparr>"

definition handleFileChange :: "js_file option \<Rightarrow> app_state \<Rightarrow> app_state" where
  "handleFileChange f s = s\<lparr>fileInput := f\<rparr>"

text \<open>
  \<open>sendData\<close> up to its \<open>await\<close>: the loading flag is raised and the request leaves.
\<close>

definition sendData_start :: "js_string \<Rightarrow> app_state \<Rightarrow> app_state \<times> effect list" where
  "sendData_start content s =
     (s\<lparr>isLoading := True\<rparr>, [HttpPost API_ENDPOINT (JObj [(str ''text'', JStr content)])])"

text \<open>The rest of the \<open>try\<close> block, once the promise has settled.\<close>

definition sendData_try :: "post_outcome \<Rightarrow> app_state \<Rightarrow> thrown + app_state \<times> effect list" where
  "sendData_try po s =
     (case po of
        Rejected e \<Rightarrow> Inl e
      | Resolved r \<Rightarrow>
          if status r = 200 then
            (case prop_audioUrl (data r) of
               Inl e \<Rightarrow> Inl e
             | Inr v \<Rightarrow> Inr (s\<lparr>audioUrl := v\<rparr>, []))
          else Inr (s, [Alert MSG_NOT_200]))"

text \<open>The \<open>catch\<close> clause and the final \<open>setIsLoading(false)\<close>.\<close>

definition sendData_finish :: "post_outcome \<Rightarrow> app_state \<Rightarrow> app_state \<times> effect list" where
  "sendData_finish po s =
     (case sendData_try po s of
        Inl e \<Rightarrow> (s\<lparr>isLoading := False\<rparr>, [ConsoleError e, Alert MSG_CAUGHT])
      | Inr (s', fx) \<Rightarrow> (s'\<lparr>isLoading := False\<rparr>, fx))"

definition sendData :: "js_string \<Rightarrow> post_outcome \<Rightarrow> app_state \<Rightarrow> app_state \<times> effect list" where
  "sendData content po s =
     (case sendData_start content s of
        (s1, fx1) \<Rightarrow> (case sendData_finish po s1 of (s2, fx2) \<Rightarrow> (s2, fx1 @ fx2)))"

text \<open>
  \<open>handleSubmit\<close>, run to the end of everything it starts: the outcomes of the read
  and of the request are given, and the continuations run before the next event. With a
  file selected the reader is started and \<open>sendData\<close> runs only from \<open>onload\<close>; the
  text branch sends \<open>content\<close>, which is \<open>textInput\<close> itself.
\<close>

definition handleSubmit :: "read_outcome \<Rightarrow> post_outcome \<Rightarrow> app_state \<Rightarrow> app_state \<times> effect list" where
  "handleSubmit rd po s =
     (let content = textInput s in
      case fileInput s of
        Some f \<Rightarrow>
          (case rd of
             Loaded t \<Rightarrow>
               (case sendData t po s of (s', fx) \<Rightarrow> (s', [PreventDefault, ReadAsText f] @ fx))
           | ReadFailed \<Rightarrow> (s, [PreventDefault, ReadAsText f]))
      | None \<Rightarrow>
          if trim (textInput s) \<noteq> [] then
            (case sendData content po s of (s', fx) \<Rightarrow> (s', PreventDefault # fx))
          else (s, [PreventDefault, Alert MSG_NO_INPUT]))"

section \<open>What is rendered\<close>

record view =
  submitDisabled :: bool
  submitLabel :: js_string
  audioShown :: "js_value option"

definition render :: "app_state \<Rightarrow> view" where
  "render s =
     \<lparr>submitDisabled = isLoading s,
      submitLabel = (if isLoading s then str ''Processing...'' else str ''Submit''),
      audioShown = (if truthy (audioUrl s) then Some (audioUrl s) else None)\<rparr>"

section \<open>Observations on an effect trace\<close>

fun requests :: "effect list \<Rightarrow> (js_string \<times> js_value) list" where
  "requests [] = []"
| "requests (HttpPost url body # fx) = (url, body) # requests fx"
| "requests (_ # fx) = requests fx"

fun alerts :: "effect list \<Rightarrow> js_string list" where
  "alerts [] = []"
| "alerts (Alert m # fx) = m # alerts fx"
| "alerts (_ # fx) = alerts fx"

section \<open>Sessions\<close>

datatype event =
    TextChange js_string
  | FileChange "js_file option"
  | Submit read_outcome post_outcome

fun step :: "app_state \<Rightarrow> event \<Rightarrow> app_state \<times> effect list" where
  "step s (TextChange v) = (handleTextChange v s, [])"
| "step s (FileChange f) = (handleFileChange f s, [])"
| "step s (Submit rd po) = handleSubmit rd po s"

fun run :: "app_state \<Rightarrow> event list \<Rightarrow> app_state \<times> effect list" where
  "run s [] = (s, [])"
| "run s (e # es) =
     (case step s e of (s1, fx1) \<Rightarrow> (case run s1 es of (s2, fx2) \<Rightarrow> (s2, fx1 @ fx2)))"

text \<open>
  Sessions in which the file picker is not used again, and the requests such a session
  makes when every submission reads the selected file.
\<close>

fun not_file_change :: "event \<Rightarrow> bool" where
  "not_file_change (FileChange f) = False"
| "not_file_change e = True"

fun file_requests :: "event list \<Rightarrow> (js_string \<times> js_value) list" where
  "file_requests [] = []"
| "file_requests (Submit (Loaded t) po # es) =
     (API_ENDPOINT, JObj [(str ''text'', JStr t)]) # file_requests es"
| "file_requests (e # es) = file_requests es"

section \<open>Basic facts\<close>

lemma requests_append: "requests (fx @ gx) = requests fx @ requests gx"
  by (induction fx rule: requests.induct) simp_all

lemma finish_cases:
  "sendData_finish po s =
     (case po of
        Rejected e \<Rightarrow> (s\<lparr>isLoading := False\<rparr>, [ConsoleError e, Alert MSG_CAUGHT])
      | Resolved r \<Rightarrow>
          if status r = 200 then
            (case prop_audioUrl (data r) of
               Inl e \<Rightarrow> (s\<lparr>isLoading := False\<rparr>, [ConsoleError e, Alert MSG_CAUGHT])
             | Inr v \<Rightarrow> (s\<lparr>audioUrl := v, isLoading := False\<rparr>, []))
          else (s\<lparr>isLoading := False\<rparr>, [Alert MSG_NOT_200]))"
  by (simp add: sendData_finish_def sendData_try_def split: post_outcome.splits sum.splits)

lemma sendData_unfold:
  "sendData c po s =
     (fst (sendData_finish po (s\<lparr>isLoading := True\<rparr>)),
      HttpPost API_ENDPOINT (JObj [(str ''text'', JStr c)])
        # snd (sendData_finish po (s\<lparr>isLoading := True\<rparr>)))"
  by (simp add: sendData_def sendData_start_def split: prod.splits)

lemma handleSubmit_unfold:
  "handleSubmit rd po s =
     (case fileInput s of
        Some f \<Rightarrow>
          (case rd of
             Loaded t \<Rightarrow>
               (fst (sendData t po s), PreventDefault # ReadAsText f # snd (sendData t po s))
           | ReadFailed \<Rightarrow> (s, [PreventDefault, ReadAsText f]))
      | None \<Rightarrow>
          if trim (textInput s) \<noteq> [] then
            (fst (sendData (textInput s) po s), PreventDefault # snd (sendData (textInput s) po s))
          else (s, [PreventDefault, Alert MSG_NO_INPUT]))"
  by (simp add: handleSubmit_def case_prod_beta split: option.splits read_outcome.splits)

lemma requests_finish: "requests (snd (sendData_finish po s)) = []"
  by (simp add: finish_cases split: post_outcome.splits sum.splits)

lemma requests_sendData:
  "requests (snd (sendData c po s)) = [(API_ENDPOINT, JObj [(str ''text'', JStr c)])]"
  by (simp add: sendData_unfold requests_finish)

lemma alerts_finish:
  "alerts (snd (sendData_finish po s)) =
     (case po of
        Rejected e \<Rightarrow> [MSG_CAUGHT]
      | Resolved r \<Rightarrow>
          if status r = 200 then
            (case prop_audioUrl (data r) of Inl e \<Rightarrow> [MSG_CAUGHT] | Inr v \<Rightarrow> [])
          else [MSG_NOT_200])"
  by (simp add: finish_cases split: post_outcome.splits sum.splits)

lemma alerts_sendData: "alerts (snd (sendData c po s)) = alerts (snd (sendData_finish po s))"
  by (simp add: sendData_unfold alerts_finish)


lemma state_sendData_failed:
  "fst (sendData c (Rejected e) s) = s\<lparr>isLoading := False\<rparr>"
  "status r \<noteq> 200 \<Longrightarrow> fst (sendData c (Resolved r) s) = s\<lparr>isLoading := False\<rparr>"
  by (simp_all add: sendData_unfold finish_cases)

lemma axios_post_cases:
  "axios_post NetworkFailure = Rejected AxiosError"
  "validateStatus (status r) \<Longrightarrow> axios_post (HttpResponse r) = Resolved r"
  "\<not> validateStatus (status r) \<Longrightarrow> axios_post (HttpResponse r) = Rejected AxiosError"
  by (simp_all add: axios_post_def)

lemma validateStatus_200: "validateStatus 200"
  by (simp add: validateStatus_def)

lemma state_sendData_resolved_200:
  "status r = 200 \<Longrightarrow>
   fst (sendData c (Resolved r) s) =
     (case prop_audioUrl (data r) of
        Inl e \<Rightarrow> s\<lparr>isLoading := False\<rparr>
      | Inr v \<Rightarrow> s\<lparr>audioUrl := v, isLoading := False\<rparr>)"
  by (simp add: sendData_unfold finish_cases split: sum.splits)

lemma prop_audioUrl_defined:
  "v \<noteq> JNull \<Longrightarrow> v \<noteq> JUndefined \<Longrightarrow> \<exists>u. prop_audioUrl v = Inr u"
  by (cases v) simp_all

lemma messages_differ: "MSG_NOT_200 \<noteq> MSG_CAUGHT"
  by (simp add: MSG_NOT_200_def MSG_CAUGHT_def str_def)

lemma inputs_finish:
  "textInput (fst (sendData_finish po s)) = textInput s"
  "fileInput (fst (sendData_finish po s)) = fileInput s"
  by (simp_all add: finish_cases split: post_outcome.splits sum.splits)

lemma inputs_sendData:
  "textInput (fst (sendData c po s)) = textInput s"
  "fileInput (fst (sendData c po s)) = fileInput s"
  by (simp_all add: sendData_unfold inputs_finish)

lemma inputs_handleSubmit:
  "textInput (fst (handleSubmit rd po s)) = textInput s"
  "fileInput (fst (handleSubmit rd po s)) = fileInput s"
  by (simp_all add: handleSubmit_unfold inputs_sendData
      split: option.splits read_outcome.splits)

lemma requests_handleSubmit_file:
  "fileInput s = Some f \<Longrightarrow>
   requests (snd (handleSubmit rd po s)) =
     (case rd of Loaded t \<Rightarrow> [(API_ENDPOINT, JObj [(str ''text'', JStr t)])] | ReadFailed \<Rightarrow> [])"
  by (simp add: handleSubmit_unfold requests_sendData split: read_outcome.splits)

text \<open>
  As long as no file change occurs, the selected file stays selected and every request
  of the session carries what the reader delivered. The state is generalised, since
  each event changes it.
\<close>

lemma run_file_persists:
  "list_all not_file_change es \<Longrightarrow> fileInput s = Some f \<Longrightarrow>
   fileInput (fst (run s es)) = Some f \<and> requests (snd (run s es)) = file_requests es"
proof (induction es arbitrary: s)
  case Nil
  then show ?case by simp
next
  case (Cons e es)
  obtain s1 fx1 where st: "step s e = (s1, fx1)" by (cases "step s e")
  have keep: "fileInput s1 = Some f"
  proof (cases e)
    case (TextChange v)
    with st Cons.prems(2) show ?thesis by (auto simp: handleTextChange_def)
  next
    case (FileChange g)
    with Cons.prems(1) show ?thesis by simp
  next
    case (Submit rd po)
    with st have "s1 = fst (handleSubmit rd po s)" by simp
    with Cons.prems(2) show ?thesis by (simp add: inputs_handleSubmit)
  qed
  have rest: "fileInput (fst (run s1 es)) = Some f \<and> requests (snd (run s1 es)) = file_requests es"
    using Cons.IH[OF _ keep] Cons.prems(1) by simp
  have here: "requests fx1 @ file_requests es = file_requests (e # es)"
  proof (cases e)
    case (TextChange v)
    with st show ?thesis by auto
  next
    case (FileChange g)
    with Cons.prems(1) show ?thesis by simp
  next
    case (Submit rd po)
    with st requests_handleSubmit_file[OF Cons.prems(2), of rd po] show ?thesis
      by (cases rd) auto
  qed
  show ?case using st rest here
    by (simp add: requests_append case_prod_beta)
qed

section \<open>Text submissions\<close>

text \<open>
  Claim C1, amended. With no file attached and a pasted text that is non-empty after
  trimming, exactly one request is sent and its payload is the pasted text as it stands
  in \<open>textInput\<close>, white space at its ends included: \<open>trim\<close> is used for the emptiness
  test only.
\<close>

theorem text_payload_is_untrimmed_text:
  assumes "fileInput s = None" and "trim (textInput s) \<noteq> []"
  shows "requests (snd (handleSubmit rd po s)) =
           [(API_ENDPOINT, JObj [(str ''text'', JStr (textInput s))])]"
  using assms by (simp add: handleSubmit_unfold requests_sendData)

text \<open>The text \<open>Hello world\<close>, typed into the initial state.\<close>

theorem text_payload_is_untrimmed_text_witness:
  "fileInput (initial_state\<lparr>textInput := str ''Hello world''\<rparr>) = None
   \<and> trim (textInput (initial_state\<lparr>textInput := str ''Hello world''\<rparr>)) \<noteq> []
   \<and> requests (snd (handleSubmit ReadFailed
         (Resolved \<lparr>status = 200,
                    data = JObj [(str ''audioUrl'', JStr (str ''http://x/a.mp3''))]\<rparr>)
         (initial_state\<lparr>textInput := str ''Hello world''\<rparr>)))
       = [(API_ENDPOINT, JObj [(str ''text'', JStr (str ''Hello world''))])]"
proof -
  let ?s = "initial_state\<lparr>textInput := str ''Hello world''\<rparr>"
  have a: "fileInput ?s = None" by (simp add: initial_state_def)
  have b: "trim (textInput ?s) \<noteq> []"
    by (simp add: trim_def str_def is_js_whitespace_def)
  from text_payload_is_untrimmed_text[OF a b] a b show ?thesis by simp
qed

text \<open>
  A text with a leading space: its trimmed form is \<open>a\<close>, and the payload is not the
  trimmed form.
\<close>

theorem text_payload_trimmed_counterexample:
  "fileInput (initial_state\<lparr>textInput := str '' a''\<rparr>) = None
   \<and> trim (textInput (initial_state\<lparr>textInput := str '' a''\<rparr>)) = str ''a''
   \<and> requests (snd (handleSubmit ReadFailed (Rejected AxiosError)
                      (initial_state\<lparr>textInput := str '' a''\<rparr>)))
       \<noteq> [(API_ENDPOINT,
            JObj [(str ''text'',
                   JStr (trim (textInput (initial_state\<lparr>textInput := str '' a''\<rparr>))))])]"
  by (simp add: initial_state_def handleSubmit_unfold requests_sendData trim_def str_def
      is_js_whitespace_def)

section \<open>File submissions\<close>

text \<open>
  Claim C2. When a file is selected, the file branch is taken whatever the pasted text
  is: once the reader has delivered the decoded text \<open>t\<close>, the one request sent
  carries \<open>t\<close>, and when the reader fails nothing is sent, the text serving as no
  fallback.
\<close>

theorem file_takes_precedence:
  assumes "fileInput s = Some f"
  shows "requests (snd (handleSubmit (Loaded t) po (s\<lparr>textInput := v\<rparr>)))
           = [(API_ENDPOINT, JObj [(str ''text'', JStr t)])]
         \<and> requests (snd (handleSubmit ReadFailed po (s\<lparr>textInput := v\<rparr>))) = []"
  using assms by (simp add: handleSubmit_unfold requests_sendData)

text \<open>The file \<open>notes.txt\<close> holding \<open>Read me\<close>, with \<open>typed\<close> in the text area.\<close>

theorem file_takes_precedence_witness:
  "fileInput \<lparr>textInput = str ''typed'', fileInput = Some (File (str ''notes.txt'')),
              audioUrl = JStr [], isLoading = False\<rparr> = Some (File (str ''notes.txt''))
   \<and> requests (snd (handleSubmit (Loaded (str ''Read me'')) (Rejected AxiosError)
        \<lparr>textInput = str ''typed'', fileInput = Some (File (str ''notes.txt'')),
         audioUrl = JStr [], isLoading = False\<rparr>))
      = [(API_ENDPOINT, JObj [(str ''text'', JStr (str ''Read me''))])]"
proof -
  let ?s = "\<lparr>textInput = [], fileInput = Some (File (str ''notes.txt'')),
             audioUrl = JStr [], isLoading = False\<rparr>"
  have a: "fileInput ?s = Some (File (str ''notes.txt''))" by simp
  from file_takes_precedence[OF a, of "str ''Read me''" "Rejected AxiosError" "str ''typed''"]
  show ?thesis by simp
qed

text \<open>
  Claim C6, amended. When a file is selected and the read fails, the submission ends
  before any network call: no request is sent and the state does not change. No handler
  is installed for a failed read, so nothing is shown to the user either.
\<close>

theorem failed_read_is_silent:
  assumes "fileInput s = Some f"
  shows "handleSubmit ReadFailed po s = (s, [PreventDefault, ReadAsText f])
         \<and> requests (snd (handleSubmit ReadFailed po s)) = []
         \<and> alerts (snd (handleSubmit ReadFailed po s)) = []"
  using assms by (simp add: handleSubmit_unfold)

text \<open>A failed read of \<open>notes.txt\<close> from the initial state.\<close>

theorem failed_read_is_silent_witness:
  "fileInput (initial_state\<lparr>fileInput := Some (File (str ''notes.txt''))\<rparr>)
     = Some (File (str ''notes.txt''))
   \<and> handleSubmit ReadFailed (Rejected AxiosError)
        (initial_state\<lparr>fileInput := Some (File (str ''notes.txt''))\<rparr>)
     = (initial_state\<lparr>fileInput := Some (File (str ''notes.txt''))\<rparr>,
        [PreventDefault, ReadAsText (File (str ''notes.txt''))])"
proof -
  let ?s = "initial_state\<lparr>fileInput := Some (File (str ''notes.txt''))\<rparr>"
  have a: "fileInput ?s = Some (File (str ''notes.txt''))" by simp
  from failed_read_is_silent[OF a, of "Rejected AxiosError"] a show ?thesis by simp
qed

text \<open>The same failed read shows no notification at all.\<close>

theorem failed_read_notification_counterexample:
  "fileInput (initial_state\<lparr>fileInput := Some (File (str ''notes.txt''))\<rparr>)
     = Some (File (str ''notes.txt''))
   \<and> alerts (snd (handleSubmit ReadFailed (Rejected AxiosError)
        (initial_state\<lparr>fileInput := Some (File (str ''notes.txt''))\<rparr>))) = []"
  by (simp add: handleSubmit_unfold initial_state_def)

section \<open>Empty submissions\<close>

text \<open>
  Claim C4. With no file attached and a pasted text that is empty or consists of white
  space only, the submission sends no request, shows one notification and returns the
  state it started from.
\<close>

theorem empty_input_is_rejected_locally:
  assumes "fileInput s = None" and "trim (textInput s) = []"
  shows "handleSubmit rd po s = (s, [PreventDefault, Alert MSG_NO_INPUT])
         \<and> requests (snd (handleSubmit rd po s)) = []
         \<and> alerts (snd (handleSubmit rd po s)) = [MSG_NO_INPUT]"
  using assms by (simp add: handleSubmit_unfold)

text \<open>A text of a space and a line feed, typed into the initial state.\<close>

theorem empty_input_is_rejected_locally_witness:
  "fileInput (initial_state\<lparr>textInput := [0x20, 0x0A]\<rparr>) = None
   \<and> trim (textInput (initial_state\<lparr>textInput := [0x20, 0x0A]\<rparr>)) = []
   \<and> handleSubmit (Loaded (str ''x'')) (Rejected AxiosError)
        (initial_state\<lparr>textInput := [0x20, 0x0A]\<rparr>)
     = (initial_state\<lparr>textInput := [0x20, 0x0A]\<rparr>, [PreventDefault, Alert MSG_NO_INPUT])"
proof -
  let ?s = "initial_state\<lparr>textInput := [0x20, 0x0A]\<rparr>"
  have a: "fileInput ?s = None" by (simp add: initial_state_def)
  have b: "trim (textInput ?s) = []" by (simp add: trim_def is_js_whitespace_def)
  from empty_input_is_rejected_locally[OF a b, of "Loaded (str ''x'')" "Rejected AxiosError"] a b
  show ?thesis by simp
qed

section \<open>The request and its outcome\<close>

text \<open>
  Claim C5. Whatever the outcome, \<open>sendData\<close> on a payload \<open>p\<close> issues exactly one
  POST, to the fixed endpoint, whose body is the object with the single field \<open>text\<close>
  holding \<open>p\<close>; there is no second attempt.
\<close>

theorem exactly_one_post:
  "requests (snd (sendData p po s)) = [(API_ENDPOINT, JObj [(str ''text'', JStr p)])]
   \<and> length (requests (snd (sendData p po s))) = 1"
  by (simp add: requests_sendData)

text \<open>
  Claim C3, amended. For every dispatched request, the submission succeeds (the
  audioUrl is stored and nothing is notified) if and only if the request is answered
  with status 200 and a body that is neither \<open>null\<close> nor \<open>undefined\<close>; the value
  stored is then the body's \<open>audioUrl\<close> property. In every other case no audioUrl is
  stored and one error notification is shown: for status 200 with a \<open>null\<close> or
  \<open>undefined\<close> body, where reading the property throws, for a status outside 2xx and
  for a failure of the network it is the notification of the \<open>catch\<close> clause, and for
  a 2xx status other than 200 it is the notification of the status test.
\<close>

theorem success_needs_200_and_body:
  "(status r = 200 \<and> data r \<noteq> JNull \<and> data r \<noteq> JUndefined \<longrightarrow>
      (\<exists>v. prop_audioUrl (data r) = Inr v
         \<and> fst (sendData c (axios_post (HttpResponse r)) s)
             = s\<lparr>audioUrl := v, isLoading := False\<rparr>)
      \<and> alerts (snd (sendData c (axios_post (HttpResponse r)) s)) = [])
   \<and> (status r = 200 \<and> (data r = JNull \<or> data r = JUndefined) \<longrightarrow>
      fst (sendData c (axios_post (HttpResponse r)) s) = s\<lparr>isLoading := False\<rparr>
      \<and> alerts (snd (sendData c (axios_post (HttpResponse r)) s)) = [MSG_CAUGHT])
   \<and> (status r \<noteq> 200 \<and> validateStatus (status r) \<longrightarrow>
      fst (sendData c (axios_post (HttpResponse r)) s) = s\<lparr>isLoading := False\<rparr>
      \<and> alerts (snd (sendData c (axios_post (HttpResponse r)) s)) = [MSG_NOT_200])
   \<and> (\<not> validateStatus (status r) \<longrightarrow>
      fst (sendData c (axios_post (HttpResponse r)) s) = s\<lparr>isLoading := False\<rparr>
      \<and> alerts (snd (sendData c (axios_post (HttpResponse r)) s)) = [MSG_CAUGHT])
   \<and> fst (sendData c (axios_post NetworkFailure) s) = s\<lparr>isLoading := False\<rparr>
   \<and> alerts (snd (sendData c (axios_post NetworkFailure) s)) = [MSG_CAUGHT]
   \<and> fst (sendData c (Rejected e) s) = s\<lparr>isLoading := False\<rparr>
   \<and> alerts (snd (sendData c (Rejected e) s)) = [MSG_CAUGHT]
   \<and> (alerts (snd (sendData c (axios_post w) s)) = [])
       = (case w of
            NetworkFailure \<Rightarrow> False
          | HttpResponse r' \<Rightarrow> status r' = 200 \<and> data r' \<noteq> JNull \<and> data r' \<noteq> JUndefined)"
proof -
  have ok: "(\<exists>v. prop_audioUrl (data r) = Inr v
         \<and> fst (sendData c (axios_post (HttpResponse r)) s)
             = s\<lparr>audioUrl := v, isLoading := False\<rparr>)
      \<and> alerts (snd (sendData c (axios_post (HttpResponse r)) s)) = []"
    if h: "status r = 200 \<and> data r \<noteq> JNull \<and> data r \<noteq> JUndefined"
  proof -
    from h obtain v where v: "prop_audioUrl (data r) = Inr v"
      using prop_audioUrl_defined by blast
    from h have res: "axios_post (HttpResponse r) = Resolved r"
      by (simp add: axios_post_cases validateStatus_200)
    from h v res show ?thesis
      by (simp add: state_sendData_resolved_200 alerts_sendData alerts_finish)
  qed
  have thrown: "fst (sendData c (axios_post (HttpResponse r)) s) = s\<lparr>isLoading := False\<rparr>
      \<and> alerts (snd (sendData c (axios_post (HttpResponse r)) s)) = [MSG_CAUGHT]"
    if h: "status r = 200 \<and> (data r = JNull \<or> data r = JUndefined)"
  proof -
    from h have res: "axios_post (HttpResponse r) = Resolved r"
      by (simp add: axios_post_cases validateStatus_200)
    from h have "prop_audioUrl (data r) = Inl TypeError" by auto
    with h res show ?thesis
      by (simp add: state_sendData_resolved_200 alerts_sendData alerts_finish)
  qed
  have other: "fst (sendData c (axios_post (HttpResponse r)) s) = s\<lparr>isLoading := False\<rparr>
      \<and> alerts (snd (sendData c (axios_post (HttpResponse r)) s)) = [MSG_NOT_200]"
    if h: "status r \<noteq> 200 \<and> validateStatus (status r)"
    using h by (simp add: axios_post_cases state_sendData_failed alerts_sendData alerts_finish)
  have refused: "fst (sendData c (axios_post (HttpResponse r)) s) = s\<lparr>isLoading := False\<rparr>
      \<and> alerts (snd (sendData c (axios_post (HttpResponse r)) s)) = [MSG_CAUGHT]"
    if h: "\<not> validateStatus (status r)"
    using h by (simp add: axios_post_cases state_sendData_failed alerts_sendData alerts_finish)
  have net: "fst (sendData c (axios_post NetworkFailure) s) = s\<lparr>isLoading := False\<rparr>
      \<and> alerts (snd (sendData c (axios_post NetworkFailure) s)) = [MSG_CAUGHT]"
    by (simp add: axios_post_cases state_sendData_failed alerts_sendData alerts_finish)
  have rej: "fst (sendData c (Rejected e) s) = s\<lparr>isLoading := False\<rparr>
      \<and> alerts (snd (sendData c (Rejected e) s)) = [MSG_CAUGHT]"
    by (simp add: state_sendData_failed alerts_sendData alerts_finish)
  have iff: "(alerts (snd (sendData c (axios_post w) s)) = [])
       = (case w of
            NetworkFailure \<Rightarrow> False
          | HttpResponse r' \<Rightarrow> status r' = 200 \<and> data r' \<noteq> JNull \<and> data r' \<noteq> JUndefined)"
  proof (cases w)
    case NetworkFailure
    then show ?thesis
      by (simp add: axios_post_cases alerts_sendData alerts_finish MSG_CAUGHT_def str_def)
  next
    case (HttpResponse r')
    show ?thesis
    proof (cases "status r' = 200")
      case True
      then have res: "axios_post (HttpResponse r') = Resolved r'"
        by (simp add: axios_post_cases validateStatus_200)
      show ?thesis
      proof (cases "data r' = JNull \<or> data r' = JUndefined")
        case True
        then have "prop_audioUrl (data r') = Inl TypeError" by auto
        with True \<open>status r' = 200\<close> res HttpResponse show ?thesis
          by (simp add: alerts_sendData alerts_finish MSG_CAUGHT_def str_def)
      next
        case False
        then obtain v where "prop_audioUrl (data r') = Inr v"
          using prop_audioUrl_defined by blast
        with False \<open>status r' = 200\<close> res HttpResponse show ?thesis
          by (simp add: alerts_sendData alerts_finish)
      qed
    next
      case False
      with HttpResponse show ?thesis
        by (simp add: axios_post_def alerts_sendData alerts_finish
            MSG_CAUGHT_def MSG_NOT_200_def str_def)
    qed
  qed
  from ok thrown other refused net rej iff show ?thesis by blast
qed

text \<open>
  The cases at concrete answers: 200 with an audioUrl, 200 with the body \<open>null\<close>,
  202, 500, and no answer at all.
\<close>

theorem success_needs_200_and_body_witness:
  "fst (sendData (str ''Hello world'')
          (axios_post (HttpResponse \<lparr>status = 200,
             data = JObj [(str ''audioUrl'', JStr (str ''http://x/a.mp3''))]\<rparr>))
          initial_state)
     = initial_state\<lparr>audioUrl := JStr (str ''http://x/a.mp3'')\<rparr>
   \<and> alerts (snd (sendData (str ''Hello world'')
          (axios_post (HttpResponse \<lparr>status = 200,
             data = JObj [(str ''audioUrl'', JStr (str ''http://x/a.mp3''))]\<rparr>))
          initial_state)) = []
   \<and> alerts (snd (sendData (str ''Hi'')
          (axios_post (HttpResponse \<lparr>status = 200, data = JNull\<rparr>)) initial_state))
       = [MSG_CAUGHT]
   \<and> validateStatus 202
   \<and> alerts (snd (sendData (str ''Hi'')
          (axios_post (HttpResponse \<lparr>status = 202, data = JObj []\<rparr>)) initial_state))
       = [MSG_NOT_200]
   \<and> validateStatus 500 = False
   \<and> alerts (snd (sendData (str ''Hi'')
          (axios_post (HttpResponse \<lparr>status = 500, data = JObj []\<rparr>)) initial_state))
       = [MSG_CAUGHT]
   \<and> alerts (snd (sendData (str ''Hi'') (axios_post NetworkFailure) initial_state))
       = [MSG_CAUGHT]"
  using
    success_needs_200_and_body[of
      "\<lparr>status = 200, data = JObj [(str ''audioUrl'', JStr (str ''http://x/a.mp3''))]\<rparr>"
      "str ''Hello world''" initial_state AxiosError NetworkFailure]
    success_needs_200_and_body[of "\<lparr>status = 200, data = JNull\<rparr>" "str ''Hi''"
      initial_state AxiosError NetworkFailure]
    success_needs_200_and_body[of "\<lparr>status = 202, data = JObj []\<rparr>" "str ''Hi''"
      initial_state AxiosError NetworkFailure]
    success_needs_200_and_body[of "\<lparr>status = 500, data = JObj []\<rparr>" "str ''Hi''"
      initial_state AxiosError NetworkFailure]
  by (simp add: initial_state_def str_def validateStatus_def)

text \<open>
  An answer with status 200 whose body is \<open>null\<close> is not a success: the user is
  notified of an error and the stored audioUrl is the one from before.
\<close>

theorem status_200_null_body_counterexample:
  "status \<lparr>status = 200, data = JNull\<rparr> = 200
   \<and> alerts (snd (sendData (str ''Hi'')
        (axios_post (HttpResponse \<lparr>status = 200, data = JNull\<rparr>)) initial_state))
       = [MSG_CAUGHT]
   \<and> audioUrl (fst (sendData (str ''Hi'')
        (axios_post (HttpResponse \<lparr>status = 200, data = JNull\<rparr>)) initial_state))
       = audioUrl initial_state"
  by (simp add: axios_post_def validateStatus_def sendData_unfold finish_cases)

text \<open>
  Claim C7, amended. A failure of the network and an answer whose status is outside
  2xx are surfaced to the user identically: each shows the one notification
  \<open>An error occurred while processing your request.\<close> and leaves the same state. An
  answer with a 2xx status other than 200 leaves that same state too, but its
  notification is a different one, \<open>Error processing your request.\<close>
\<close>

theorem rejected_status_is_surfaced_as_network_failure:
  "(\<not> validateStatus (status r) \<longrightarrow>
      alerts (snd (sendData c (axios_post (HttpResponse r)) s)) = [MSG_CAUGHT]
      \<and> alerts (snd (sendData c (axios_post NetworkFailure) s)) = [MSG_CAUGHT]
      \<and> fst (sendData c (axios_post (HttpResponse r)) s)
          = fst (sendData c (axios_post NetworkFailure) s))
   \<and> (validateStatus (status r) \<and> status r \<noteq> 200 \<longrightarrow>
      alerts (snd (sendData c (axios_post (HttpResponse r)) s)) = [MSG_NOT_200]
      \<and> alerts (snd (sendData c (axios_post NetworkFailure) s)) = [MSG_CAUGHT]
      \<and> MSG_NOT_200 \<noteq> MSG_CAUGHT
      \<and> fst (sendData c (axios_post (HttpResponse r)) s)
          = fst (sendData c (axios_post NetworkFailure) s))"
  by (simp add: axios_post_cases alerts_sendData alerts_finish state_sendData_failed
      messages_differ)

text \<open>Status 500 and status 204, each against a failure of the network.\<close>

theorem rejected_status_is_surfaced_as_network_failure_witness:
  "validateStatus (status \<lparr>status = 500, data = JStr []\<rparr>) = False
   \<and> alerts (snd (sendData (str ''Hi'')
        (axios_post (HttpResponse \<lparr>status = 500, data = JStr []\<rparr>)) initial_state))
     = alerts (snd (sendData (str ''Hi'') (axios_post NetworkFailure) initial_state))
   \<and> validateStatus (status \<lparr>status = 204, data = JStr []\<rparr>)
   \<and> status \<lparr>status = 204, data = JStr []\<rparr> \<noteq> 200
   \<and> alerts (snd (sendData (str ''Hi'')
        (axios_post (HttpResponse \<lparr>status = 204, data = JStr []\<rparr>)) initial_state))
     = [MSG_NOT_200]
   \<and> fst (sendData (str ''Hi'')
        (axios_post (HttpResponse \<lparr>status = 204, data = JStr []\<rparr>)) initial_state)
     = fst (sendData (str ''Hi'') (axios_post NetworkFailure) initial_state)"
  using
    rejected_status_is_surfaced_as_network_failure[of "\<lparr>status = 500, data = JStr []\<rparr>"
      "str ''Hi''" initial_state]
    rejected_status_is_surfaced_as_network_failure[of "\<lparr>status = 204, data = JStr []\<rparr>"
      "str ''Hi''" initial_state]
  by (simp add: validateStatus_def)

text \<open>
  Status 201 is a response other than 200, and its notification is not the one a
  failure of the network produces.
\<close>

theorem failures_same_notification_counterexample:
  "alerts (snd (sendData (str ''Hi'')
      (axios_post (HttpResponse \<lparr>status = 201, data = JObj []\<rparr>)) initial_state))
   \<noteq> alerts (snd (sendData (str ''Hi'') (axios_post NetworkFailure) initial_state))"
  by (simp add: axios_post_def validateStatus_def alerts_sendData alerts_finish messages_differ)

section \<open>Loading flag and rendered result\<close>


text \<open>
  Claim C9. A submission that fails, by a status other than 200 or by a rejected
  request, leaves the stored audioUrl as it was, and with it the rendered audio block.
\<close>

theorem failure_keeps_audioUrl:
  assumes "status r \<noteq> 200"
  shows "audioUrl (fst (sendData c (Resolved r) s)) = audioUrl s
         \<and> audioUrl (fst (sendData c (Rejected e) s)) = audioUrl s
         \<and> audioShown (render (fst (sendData c (Resolved r) s))) = audioShown (render s)
         \<and> audioShown (render (fst (sendData c (Rejected e) s))) = audioShown (render s)
         \<and> audioUrl (fst (handleSubmit rd (Resolved r) s)) = audioUrl s
         \<and> audioUrl (fst (handleSubmit rd (Rejected e) s)) = audioUrl s"
  using assms
  by (simp add: state_sendData_failed render_def handleSubmit_unfold
      split: option.splits read_outcome.splits)

text \<open>An earlier result \<open>http://x/a.mp3\<close> survives a 202 and a rejected request.\<close>

theorem failure_keeps_audioUrl_witness:
  "status \<lparr>status = 202, data = JObj []\<rparr> \<noteq> 200
   \<and> audioUrl (fst (sendData (str ''Hi'') (Resolved \<lparr>status = 202, data = JObj []\<rparr>)
        \<lparr>textInput = str ''Hi'', fileInput = None,
         audioUrl = JStr (str ''http://x/a.mp3''), isLoading = False\<rparr>))
     = JStr (str ''http://x/a.mp3'')
   \<and> audioShown (render (fst (sendData (str ''Hi'') (Rejected AxiosError)
        \<lparr>textInput = str ''Hi'', fileInput = None,
         audioUrl = JStr (str ''http://x/a.mp3''), isLoading = False\<rparr>)))
     = Some (JStr (str ''http://x/a.mp3''))"
proof -
  let ?s = "\<lparr>textInput = str ''Hi'', fileInput = None,
             audioUrl = JStr (str ''http://x/a.mp3''), isLoading = False\<rparr>"
  have a: "status \<lparr>status = 202, data = JObj []\<rparr> \<noteq> 200" by simp
  from failure_keeps_audioUrl[OF a, of "str ''Hi''" ?s AxiosError] a
  show ?thesis by (simp add: render_def str_def)
qed

section \<open>The input sources across submissions\<close>

text \<open>
  Claim C10. Neither \<open>sendData\<close> nor \<open>handleSubmit\<close> changes \<open>textInput\<close> or
  \<open>fileInput\<close>. Hence in any session made of text changes and submissions, however
  long, a file selected at its start is still selected at its end, and the requests of
  the session are those of the file reads alone, whatever text was typed in between.
\<close>

theorem submitting_keeps_the_inputs:
  "textInput (fst (sendData c po s)) = textInput s
   \<and> fileInput (fst (sendData c po s)) = fileInput s
   \<and> textInput (fst (handleSubmit rd po s)) = textInput s
   \<and> fileInput (fst (handleSubmit rd po s)) = fileInput s
   \<and> (list_all not_file_change es \<longrightarrow> fileInput s = Some f \<longrightarrow>
        fileInput (fst (run s es)) = Some f
        \<and> requests (snd (run s es)) = file_requests es)"
  using run_file_persists[of es s f]
  by (simp add: inputs_sendData inputs_handleSubmit)

text \<open>
  A session on \<open>notes.txt\<close>: a submission, some typing, and a second submission. Both
  requests carry the file's text.
\<close>

theorem submitting_keeps_the_inputs_witness:
  "list_all not_file_change
     [Submit (Loaded (str ''Read me'')) (Rejected AxiosError),
      TextChange (str ''typed''),
      Submit (Loaded (str ''Read me'')) (Resolved \<lparr>status = 200, data = JObj []\<rparr>)]
   \<and> fileInput (initial_state\<lparr>fileInput := Some (File (str ''notes.txt''))\<rparr>)
       = Some (File (str ''notes.txt''))
   \<and> fileInput (fst (run (initial_state\<lparr>fileInput := Some (File (str ''notes.txt''))\<rparr>)
       [Submit (Loaded (str ''Read me'')) (Rejected AxiosError),
        TextChange (str ''typed''),
        Submit (Loaded (str ''Read me'')) (Resolved \<lparr>status = 200, data = JObj []\<rparr>)]))
     = Some (File (str ''notes.txt''))
   \<and> requests (snd (run (initial_state\<lparr>fileInput := Some (File (str ''notes.txt''))\<rparr>)
       [Submit (Loaded (str ''Read me'')) (Rejected AxiosError),
        TextChange (str ''typed''),
        Submit (Loaded (str ''Read me'')) (Resolved \<lparr>status = 200, data = JObj []\<rparr>)]))
     = [(API_ENDPOINT, JObj [(str ''text'', JStr (str ''Read me''))]),
        (API_ENDPOINT, JObj [(str ''text'', JStr (str ''Read me''))])]"
proof -
  let ?s = "initial_state\<lparr>fileInput := Some (File (str ''notes.txt''))\<rparr>"
  let ?es = "[Submit (Loaded (str ''Read me'')) (Rejected AxiosError),
      TextChange (str ''typed''),
      Submit (Loaded (str ''Read me'')) (Resolved \<lparr>status = 200, data = JObj []\<rparr>)]"
  have a: "list_all not_file_change ?es" by simp
  have b: "fileInput ?s = Some (File (str ''notes.txt''))" by simp
  from submitting_keeps_the_inputs[of "str ''x''" "Rejected AxiosError" ?s ReadFailed ?es
      "File (str ''notes.txt'')"] a b
  show ?thesis by simp
qed

end
